theory Spec2Isabelle
  imports Main
begin

section \<open>Configuration\<close>

text \<open>
  The \<^verbatim>\<open>config\<close> object of \<^verbatim>\<open>index.js\<close>. Five of its fields are read from the process
  environment; the two provider URLs, the credential lifetime and the resource URL are literals.
  An environment variable is taken here as set (a string).
\<close>

record Configuration =
  clientId :: string
  clientSecret :: string
  authUrl :: string
  tokenUrl :: string
  redirectUrl :: string
  clientUrl :: string
  tokenSecret :: string
  tokenExpiration :: nat
  postUrl :: string

record process_env =
  GOOGLE_CLIENT_ID :: string
  GOOGLE_CLIENT_SECRET :: string
  REDIRECT_URL :: string
  CLIENT_URL :: string
  TOKEN_SECRET :: string

definition config :: "process_env \<Rightarrow> Configuration" where
  "config env =
     \<lparr> clientId = GOOGLE_CLIENT_ID env,
       clientSecret = GOOGLE_CLIENT_SECRET env,
       authUrl = ''https://accounts.google.com/o/oauth2/auth'',
       tokenUrl = ''https://oauth2.googleapis.com/token'',
       redirectUrl = REDIRECT_URL env,
       clientUrl = CLIENT_URL env,
       tokenSecret = TOKEN_SECRET env,
       tokenExpiration = 36000,
       postUrl = ''https://jsonplaceholder.typicode.com/posts'' \<rparr>"

section \<open>Data model\<close>

text \<open>
  \<^verbatim>\<open>{ name, email, picture }\<close>: each member is whatever the identity token carried, and is
  \<^verbatim>\<open>undefined\<close> (here \<open>None\<close>) when the claim was missing.
\<close>

record UserProfile =
  name :: "string option"
  email :: "string option"
  picture :: "string option"

section \<open>Token codec\<close>

text \<open>
  Modelled from the spec: the credential format of the package \<^verbatim>\<open>jsonwebtoken\<close>, which
  is not part of the sources. The spec (3): a credential is signed, carries an expiration
  and wraps \<^verbatim>\<open>{user: UserProfile}\<close>. The payload is the object \<^verbatim>\<open>{ user }\<close> that the
  handlers sign, with the expiration the signing adds (whole seconds). A payload signed by
  somebody else need not have a \<^verbatim>\<open>user\<close> member; \<^verbatim>\<open>decoded.user\<close> is then
  \<^verbatim>\<open>undefined\<close>.
\<close>

record jwt_payload =
  user :: "UserProfile option"
  exp :: nat

text \<open>
  Modelled from the spec: the strings that \<^verbatim>\<open>jwt.verify\<close> is given. A cookie value is a
  string, and a string is either the serialisation of a payload with a signature or no
  token at all. The datatype records which of the two a string is, and keeps the text of
  a string that is no token, so that the empty string (falsy in JavaScript) is
  \<open>Malformed []\<close>.
\<close>

datatype 'sig raw_token = Malformed string | Jwt jwt_payload 'sig

text \<open>Modelled from the spec: the two failures of verification that the spec (4.1, 7) names.\<close>

datatype jwt_error = InvalidSignature | Expired

text \<open>
  Modelled from the spec: \<^verbatim>\<open>jwt.sign\<close> of the package \<^verbatim>\<open>jsonwebtoken\<close>, which is not
  part of the sources. The spec (4.1, 3): the credential wraps \<^verbatim>\<open>{user: profile}\<close>, is signed
  with the configured secret, and expires at the time of issuance plus the lifetime.
  The signature scheme is the parameter \<open>mac\<close>; \<open>now\<close> is the clock at the call.
\<close>

definition jwt_sign ::
  "(string \<Rightarrow> jwt_payload \<Rightarrow> 'sig) \<Rightarrow> UserProfile option \<Rightarrow> string \<Rightarrow> nat \<Rightarrow> nat \<Rightarrow> 'sig raw_token"
where
  "jwt_sign mac usr secret expiresIn now =
     (let payload = \<lparr> user = usr, exp = now + expiresIn \<rparr>
      in Jwt payload (mac secret payload))"

text \<open>
  Modelled from the spec: \<^verbatim>\<open>jwt.verify\<close> of the package \<^verbatim>\<open>jsonwebtoken\<close>, which is not
  part of the sources. The spec (4.1): it fails with \<open>InvalidSignature\<close> if the signature does
  not match, fails with \<open>Expired\<close> if past expiration, and otherwise returns what the
  credential embeds. A string that is no token carries no matching signature. The
  credential is good strictly before its expiration.
\<close>

fun jwt_verify ::
  "(string \<Rightarrow> jwt_payload \<Rightarrow> 'sig) \<Rightarrow> 'sig raw_token \<Rightarrow> string \<Rightarrow> nat \<Rightarrow> jwt_error + jwt_payload"
where
  "jwt_verify mac (Malformed s) secret now = Inl InvalidSignature"
| "jwt_verify mac (Jwt payload sg) secret now =
     (if sg \<noteq> mac secret payload then Inl InvalidSignature
      else if exp payload \<le> now then Inl Expired
      else Inr payload)"

section \<open>Requests and responses\<close>

text \<open>
  What the handlers read of an Express request: the parsed cookies, the parsed query
  string, and the \<^verbatim>\<open>user\<close> property that the middleware writes.
\<close>

record 'sig request =
  cookies :: "string \<rightharpoonup> 'sig raw_token"
  query :: "string \<rightharpoonup> string"
  req_user :: "UserProfile option"

record cookie_options =
  maxAge :: nat
  httpOnly :: bool
  sameSite :: string
  secure :: bool

datatype 'sig cookie_op = SetCookie string "'sig raw_token" cookie_options | ClearCookie string

datatype 'p json_body =
    MessageBody string
  | UserBody UserProfile
  | LoggedInBody bool "UserProfile option"
  | PostsBody "'p list"

text \<open>
  What the handlers write of an Express response: the status code (200 unless set), the
  \<^verbatim>\<open>Set-Cookie\<close> operations in order, and the JSON body once sent.
\<close>

record ('sig, 'p) response =
  statusCode :: nat
  setCookies :: "'sig cookie_op list"
  body :: "'p json_body option"

definition fresh_response :: "('sig, 'p) response" where
  "fresh_response = \<lparr> statusCode = 200, setCookies = [], body = None \<rparr>"

definition status :: "nat \<Rightarrow> ('sig, 'p) response \<Rightarrow> ('sig, 'p) response" where
  "status code res = res\<lparr> statusCode := code \<rparr>"

definition json :: "'p json_body \<Rightarrow> ('sig, 'p) response \<Rightarrow> ('sig, 'p) response" where
  "json b res = res\<lparr> body := Some b \<rparr>"

definition cookie ::
  "string \<Rightarrow> 'sig raw_token \<Rightarrow> cookie_options \<Rightarrow> ('sig, 'p) response \<Rightarrow> ('sig, 'p) response"
where
  "cookie nm val opts res = res\<lparr> setCookies := setCookies res @ [SetCookie nm val opts] \<rparr>"

text \<open>\<^verbatim>\<open>!token\<close> for a cookie value: true of \<^verbatim>\<open>undefined\<close> and of the empty string.\<close>

fun falsy_token :: "'sig raw_token option \<Rightarrow> bool" where
  "falsy_token None = True"
| "falsy_token (Some (Malformed s)) = (s = [])"
| "falsy_token (Some (Jwt payload sg)) = False"

text \<open>\<^verbatim>\<open>!s\<close> for an optional string.\<close>

fun falsy :: "string option \<Rightarrow> bool" where
  "falsy None = True"
| "falsy (Some s) = (s = [])"

section \<open>The auth middleware\<close>

text \<open>
  A middleware either sends the response itself or calls \<^verbatim>\<open>next()\<close>, which hands the
  request and the response object on to the wrapped handler.
\<close>

datatype ('sig, 'p) outcome =
    Responded "('sig, 'p) response"
  | Next "'sig request" "('sig, 'p) response"

definition auth ::
  "(string \<Rightarrow> jwt_payload \<Rightarrow> 'sig) \<Rightarrow> Configuration \<Rightarrow> nat \<Rightarrow> 'sig request \<Rightarrow> ('sig, 'p) response
     \<Rightarrow> ('sig, 'p) outcome"
where
  "auth mac cfg now req res =
     (let token = cookies req ''token'' in
      if falsy_token token then
        Responded (json (MessageBody ''Unauthorized'') (status 401 res))
      else
        case token of
          None \<Rightarrow> Responded (json (MessageBody ''Unauthorized'') (status 401 res))
        | Some tok \<Rightarrow>
            (case jwt_verify mac tok (tokenSecret cfg) now of
               Inr decoded \<Rightarrow> Next (req\<lparr> req_user := user decoded \<rparr>) res
             | Inl err \<Rightarrow> Responded (json (MessageBody ''Unauthorized'') (status 401 res))))"

section \<open>Outbound HTTP\<close>

text \<open>
  An \<^verbatim>\<open>axios\<close> call either resolves with the body of a 2xx response or rejects (network
  failure, any other status). The outside world is a state \<open>'n\<close> that every call reads
  and advances, so that the number of calls a handler makes shows in the state it returns.
\<close>

datatype 'a http_result = HttpError | HttpOk 'a

text \<open>
  An object in the body of the provider's token response, as far as the handler reads it:
  the \<^verbatim>\<open>id_token\<close> member, \<open>None\<close> when the object has none.
\<close>

record token_response =
  id_token :: "string option"

text \<open>
  \<^verbatim>\<open>response.data\<close>: what \<^verbatim>\<open>axios\<close> makes of the body of a 2xx response. It is an object,
  or \<^verbatim>\<open>null\<close> (the body is the JSON text \<^verbatim>\<open>null\<close>), or a primitive value (a string, a
  number, a boolean), of which the text is kept.
\<close>

datatype response_data = DataNull | DataObject token_response | DataPrimitive string

datatype js_error = TypeError

text \<open>
  \<^verbatim>\<open>response.data.id_token\<close>: reading a property of \<^verbatim>\<open>null\<close> throws, a primitive value has
  no such property (\<^verbatim>\<open>undefined\<close>), an object gives its member.
\<close>

fun data_id_token :: "response_data \<Rightarrow> js_error + string option" where
  "data_id_token DataNull = Inl TypeError"
| "data_id_token (DataObject obj) = Inr (id_token obj)"
| "data_id_token (DataPrimitive s) = Inr None"

text \<open>
  The claims \<^verbatim>\<open>jwt.decode\<close> finds in an identity token, as far as the handler reads them.
\<close>

record IdentityAssertion =
  claim_email :: "string option"
  claim_name :: "string option"
  claim_picture :: "string option"

text \<open>
  \<^verbatim>\<open>getTokenParams\<close>: the members handed to \<^verbatim>\<open>queryString.stringify\<close>, in the order of
  the source (the URL encoding is the library's).
\<close>

definition getTokenParams :: "Configuration \<Rightarrow> string \<Rightarrow> (string \<times> string) list" where
  "getTokenParams cfg code =
     [(''client_id'', clientId cfg),
      (''client_secret'', clientSecret cfg),
      (''code'', code),
      (''grant_type'', ''authorization_code''),
      (''redirect_uri'', redirectUrl cfg)]"

definition session_cookie_options :: "Configuration \<Rightarrow> cookie_options" where
  "session_cookie_options cfg =
     \<lparr> maxAge = tokenExpiration cfg * 1000, httpOnly = True, sameSite = ''None'', secure = True \<rparr>"

section \<open>GET /auth/token\<close>

text \<open>
  \<open>jwt_decode\<close> is \<^verbatim>\<open>jwt.decode\<close> (no signature check): \<open>None\<close> is its \<^verbatim>\<open>null\<close>, on
  which the destructuring throws. The \<^verbatim>\<open>catch\<close> turns every throw inside the \<^verbatim>\<open>try\<close>
  into the 500 response: the rejected call, the property read on a \<^verbatim>\<open>null\<close> body, the
  destructuring of \<^verbatim>\<open>null\<close>. \<open>now\<close> is the clock when the credential is signed.
\<close>

definition auth_token ::
  "(string \<Rightarrow> jwt_payload \<Rightarrow> 'sig) \<Rightarrow> (string \<Rightarrow> IdentityAssertion option)
     \<Rightarrow> (string \<Rightarrow> (string \<times> string) list \<Rightarrow> 'n \<Rightarrow> response_data http_result \<times> 'n)
     \<Rightarrow> Configuration \<Rightarrow> nat \<Rightarrow> 'sig request \<Rightarrow> ('sig, 'p) response \<Rightarrow> 'n
     \<Rightarrow> ('sig, 'p) response \<times> 'n"
where
  "auth_token mac jwt_decode axios_post cfg now req res net =
     (let code = query req ''code'' in
      if falsy code then
        (json (MessageBody ''Authorization code must be provided'') (status 400 res), net)
      else
        case code of
          None \<Rightarrow> (json (MessageBody ''Authorization code must be provided'') (status 400 res), net)
        | Some c \<Rightarrow>
            (let tokenParam = getTokenParams cfg c in
             case axios_post (tokenUrl cfg) tokenParam net of
               (HttpError, net') \<Rightarrow> (json (MessageBody ''Server error'') (status 500 res), net')
             | (HttpOk data, net') \<Rightarrow>
                 (case data_id_token data of
                    Inl err \<Rightarrow> (json (MessageBody ''Server error'') (status 500 res), net')
                  | Inr id_tok \<Rightarrow>
                      if falsy id_tok then
                        (json (MessageBody ''Authorization error'') (status 400 res), net')
                      else
                        case id_tok of
                          None \<Rightarrow>
                            (json (MessageBody ''Authorization error'') (status 400 res), net')
                        | Some idt \<Rightarrow>
                            (case jwt_decode idt of
                               None \<Rightarrow>
                                 (json (MessageBody ''Server error'') (status 500 res), net')
                             | Some claims \<Rightarrow>
                                 (let usr = \<lparr> name = claim_name claims,
                                              email = claim_email claims,
                                              picture = claim_picture claims \<rparr>;
                                      token = jwt_sign mac (Some usr) (tokenSecret cfg)
                                                (tokenExpiration cfg) now
                                  in (json (UserBody usr)
                                        (cookie ''token'' token (session_cookie_options cfg) res),
                                      net'))))))"

section \<open>GET /auth/logged_in\<close>

definition logged_in ::
  "(string \<Rightarrow> jwt_payload \<Rightarrow> 'sig) \<Rightarrow> Configuration \<Rightarrow> nat \<Rightarrow> 'sig request \<Rightarrow> ('sig, 'p) response
     \<Rightarrow> ('sig, 'p) response"
where
  "logged_in mac cfg now req res =
     (let token = cookies req ''token'' in
      if falsy_token token then json (LoggedInBody False None) res
      else
        case token of
          None \<Rightarrow> json (LoggedInBody False None) res
        | Some tok \<Rightarrow>
            (case jwt_verify mac tok (tokenSecret cfg) now of
               Inl err \<Rightarrow> json (LoggedInBody False None) res
             | Inr decoded \<Rightarrow>
                 (let newToken = jwt_sign mac (user decoded) (tokenSecret cfg)
                                   (tokenExpiration cfg) now
                  in json (LoggedInBody True (user decoded))
                       (cookie ''token'' newToken (session_cookie_options cfg) res))))"

section \<open>GET /user/posts\<close>

text \<open>The handler behind the middleware; \<^verbatim>\<open>data.slice(0, 5)\<close> of a list is \<open>take 5\<close>.\<close>

definition user_posts ::
  "(string \<Rightarrow> 'n \<Rightarrow> 'p list http_result \<times> 'n) \<Rightarrow> Configuration \<Rightarrow> 'sig request
     \<Rightarrow> ('sig, 'p) response \<Rightarrow> 'n \<Rightarrow> ('sig, 'p) response \<times> 'n"
where
  "user_posts axios_get cfg req res net =
     (case axios_get (postUrl cfg) net of
        (HttpOk data, net') \<Rightarrow> (json (PostsBody (take 5 data)) res, net')
      | (HttpError, net') \<Rightarrow> (json (MessageBody ''Server error'') (status 500 res), net'))"

text \<open>The route \<^verbatim>\<open>app.get('/user/posts', auth, handler)\<close>.\<close>

definition get_user_posts ::
  "(string \<Rightarrow> jwt_payload \<Rightarrow> 'sig) \<Rightarrow> (string \<Rightarrow> 'n \<Rightarrow> 'p list http_result \<times> 'n) \<Rightarrow> Configuration
     \<Rightarrow> nat \<Rightarrow> 'sig request \<Rightarrow> ('sig, 'p) response \<Rightarrow> 'n \<Rightarrow> ('sig, 'p) response \<times> 'n"
where
  "get_user_posts mac axios_get cfg now req res net =
     (case auth mac cfg now req res of
        Responded r \<Rightarrow> (r, net)
      | Next req' res' \<Rightarrow> user_posts axios_get cfg req' res' net)"

section \<open>Example values\<close>

text \<open>
  Concrete inputs on which the definitions are evaluated: a signature scheme that keeps
  the key and the signed payload apart (so that distinct inputs have distinct signatures),
  an environment, a profile, and a request that carries at most the session cookie.
\<close>

definition example_mac :: "string \<Rightarrow> jwt_payload \<Rightarrow> string \<times> jwt_payload" where
  "example_mac secret payload = (secret, payload)"

definition example_env :: process_env where
  "example_env =
     \<lparr> GOOGLE_CLIENT_ID = ''client'', GOOGLE_CLIENT_SECRET = ''hidden'',
       REDIRECT_URL = ''https://app.example/cb'', CLIENT_URL = ''https://app.example'',
       TOKEN_SECRET = ''s3cret'' \<rparr>"

definition alice :: UserProfile where
  "alice = \<lparr> name = Some ''Alice'', email = Some ''alice@example.org'', picture = None \<rparr>"

definition request_with :: "'sig raw_token option \<Rightarrow> 'sig request" where
  "request_with tok =
     \<lparr> cookies = (\<lambda>k. if k = ''token'' then tok else None), query = Map.empty, req_user = None \<rparr>"

text \<open>
  The credential of the example profile, issued at second 1000, and a resource API
  whose state counts the calls made: the first call fails, every later one returns
  seven posts.
\<close>

definition alice_token :: "(string \<times> jwt_payload) raw_token" where
  "alice_token = jwt_sign example_mac (Some alice) ''s3cret'' 36000 1000"

definition flaky_get :: "string \<Rightarrow> nat \<Rightarrow> nat list http_result \<times> nat" where
  "flaky_get url calls =
     (if calls = 0 then HttpError else HttpOk [10, 11, 12, 13, 14, 15, 16], Suc calls)"

text \<open>
  A provider that answers the code \<^verbatim>\<open>good\<close> with an identity token, the code \<^verbatim>\<open>bare\<close>
  with an object without one, the code \<^verbatim>\<open>text\<close> with a body that is no JSON, the code
  \<^verbatim>\<open>void\<close> with the body \<^verbatim>\<open>null\<close>, and rejects every other code; the decoding of that identity
  token; a request that carries at most the \<^verbatim>\<open>code\<close> parameter; and a credential with the
  right signature whose payload has no \<^verbatim>\<open>user\<close>.
\<close>

definition example_post ::
  "string \<Rightarrow> (string \<times> string) list \<Rightarrow> nat \<Rightarrow> response_data http_result \<times> nat"
where
  "example_post url params calls =
     (if map_of params ''code'' = Some ''good''
        then HttpOk (DataObject \<lparr> id_token = Some ''idt'' \<rparr>)
      else if map_of params ''code'' = Some ''bare''
        then HttpOk (DataObject \<lparr> id_token = None \<rparr>)
      else if map_of params ''code'' = Some ''text'' then HttpOk (DataPrimitive ''OK'')
      else if map_of params ''code'' = Some ''void'' then HttpOk DataNull
      else HttpError,
      Suc calls)"

definition example_decode :: "string \<Rightarrow> IdentityAssertion option" where
  "example_decode idt =
     (if idt = ''idt''
      then Some \<lparr> claim_email = Some ''alice@example.org'', claim_name = Some ''Alice'',
                  claim_picture = None \<rparr>
      else None)"

definition request_with_code :: "string option \<Rightarrow> 'sig request" where
  "request_with_code c =
     \<lparr> cookies = Map.empty, query = (\<lambda>k. if k = ''code'' then c else None), req_user = None \<rparr>"

definition anonymous_token :: "(string \<times> jwt_payload) raw_token" where
  "anonymous_token =
     Jwt \<lparr> user = None, exp = 37000 \<rparr> (example_mac ''s3cret'' \<lparr> user = None, exp = 37000 \<rparr>)"

section \<open>Facts used throughout\<close>

lemma config_simps:
  "tokenSecret (config env) = TOKEN_SECRET env"
  "tokenExpiration (config env) = 36000"
  "postUrl (config env) = ''https://jsonplaceholder.typicode.com/posts''"
  "tokenUrl (config env) = ''https://oauth2.googleapis.com/token''"
  by (simp_all add: config_def)

lemma auth_cases:
  "auth mac cfg now req res =
     (case cookies req ''token'' of
        None \<Rightarrow> Responded (res\<lparr> statusCode := 401, body := Some (MessageBody ''Unauthorized'') \<rparr>)
      | Some tok \<Rightarrow>
          (case jwt_verify mac tok (tokenSecret cfg) now of
             Inl e \<Rightarrow> Responded (res\<lparr> statusCode := 401, body := Some (MessageBody ''Unauthorized'') \<rparr>)
           | Inr d \<Rightarrow> Next (req\<lparr> req_user := user d \<rparr>) res))"
proof (cases "cookies req ''token''")
  case None
  then show ?thesis by (simp add: auth_def status_def json_def)
next
  case (Some tok)
  then show ?thesis
    by (cases tok) (simp_all add: auth_def status_def json_def split: sum.splits)
qed

lemma alice_token_eq:
  "alice_token =
     Jwt \<lparr> user = Some alice, exp = 37000 \<rparr> (''s3cret'', \<lparr> user = Some alice, exp = 37000 \<rparr>)"
  by (simp add: alice_token_def jwt_sign_def Let_def example_mac_def)

lemma example_secret:
  "tokenSecret (config example_env) = ''s3cret''"
  "TOKEN_SECRET example_env = ''s3cret''"
  by (simp_all add: config_def example_env_def)

lemma cookies_request_with: "cookies (request_with tok) ''token'' = tok"
  by (simp add: request_with_def)

lemma logged_in_cases:
  "logged_in mac cfg now req res =
     (case cookies req ''token'' of
        None \<Rightarrow> res\<lparr> body := Some (LoggedInBody False None) \<rparr>
      | Some tok \<Rightarrow>
          (case jwt_verify mac tok (tokenSecret cfg) now of
             Inl e \<Rightarrow> res\<lparr> body := Some (LoggedInBody False None) \<rparr>
           | Inr d \<Rightarrow>
               res\<lparr> setCookies := setCookies res @
                      [SetCookie ''token''
                         (jwt_sign mac (user d) (tokenSecret cfg) (tokenExpiration cfg) now)
                         (session_cookie_options cfg)],
                    body := Some (LoggedInBody True (user d)) \<rparr>))"
proof (cases "cookies req ''token''")
  case None
  then show ?thesis by (simp add: logged_in_def json_def)
next
  case (Some tok)
  then show ?thesis
    by (cases tok) (simp_all add: logged_in_def json_def cookie_def Let_def split: sum.splits)
qed

lemma expired_example:
  "jwt_verify example_mac alice_token (tokenSecret (config example_env)) 40000 = Inl Expired"
  by (simp add: example_secret alice_token_eq example_mac_def)

lemma query_request_with_code: "query (request_with_code c) ''code'' = c"
  by (simp add: request_with_code_def)

lemma example_post_simps:
  "example_post url (getTokenParams cfg ''good'') calls
     = (HttpOk (DataObject \<lparr> id_token = Some ''idt'' \<rparr>), Suc calls)"
  "example_post url (getTokenParams cfg ''bare'') calls
     = (HttpOk (DataObject \<lparr> id_token = None \<rparr>), Suc calls)"
  "example_post url (getTokenParams cfg ''text'') calls = (HttpOk (DataPrimitive ''OK''), Suc calls)"
  "example_post url (getTokenParams cfg ''void'') calls = (HttpOk DataNull, Suc calls)"
  "example_post url (getTokenParams cfg ''used'') calls = (HttpError, Suc calls)"
  by (simp_all add: example_post_def getTokenParams_def)

lemma alice_admitted:
  "auth example_mac (config example_env) 2000 (request_with (Some alice_token))
      (fresh_response :: (string \<times> jwt_payload, nat) response)
     = Next ((request_with (Some alice_token))\<lparr> req_user := Some alice \<rparr>) fresh_response"
  by (simp add: auth_cases cookies_request_with example_secret alice_token_eq example_mac_def)

section \<open>Token codec: round trip and rejection\<close>

text \<open>
  C1. Issuing a credential for a profile \<open>P\<close> (signing \<^verbatim>\<open>{user: P}\<close> with the configured
  secret and the configured lifetime, which is 36000 seconds) and verifying it with the same
  secret at any time before its expiration returns the payload that embeds \<open>P\<close>, whatever
  the signature scheme.
\<close>

theorem issue_verify_roundtrip:
  "now < issued + 36000 \<Longrightarrow>
   jwt_verify mac
     (jwt_sign mac (Some P) (tokenSecret (config env)) (tokenExpiration (config env)) issued)
     (tokenSecret (config env)) now
   = Inr \<lparr> user = Some P, exp = issued + 36000 \<rparr>"
  by (simp add: jwt_sign_def Let_def config_simps)

text \<open>The round trip one second before the credential of the example expires.\<close>

theorem issue_verify_roundtrip_witness:
  "(35999::nat) < 0 + 36000 \<and>
   jwt_verify example_mac
     (jwt_sign example_mac (Some alice) (tokenSecret (config example_env))
        (tokenExpiration (config example_env)) 0)
     (tokenSecret (config example_env)) 35999
   = Inr \<lparr> user = Some alice, exp = 36000 \<rparr>"
  using issue_verify_roundtrip [of 35999 0 example_mac alice example_env] by simp

text \<open>
  C2. For a signature scheme under which distinct keys or payloads give distinct signatures:
  a credential signed with another secret fails with \<open>InvalidSignature\<close>; so does one
  whose payload was replaced after signing, one whose signature is not that of its payload
  under the secret, and a string that is no token; a credential with the right signature
  fails with \<open>Expired\<close> from its expiration on and returns its payload before; and
  verification succeeds on nothing but a payload with its own signature under the secret.
  The signature is checked first, so a credential both wrongly signed and expired fails
  with \<open>InvalidSignature\<close>.
\<close>

theorem jwt_verify_outcomes:
  assumes inj: "\<forall>k k' m m'. mac k m = mac k' m' \<longrightarrow> k = k' \<and> m = m'"
  shows "(\<forall>usr k ttl issued. k \<noteq> secret \<longrightarrow>
            jwt_verify mac (jwt_sign mac usr k ttl issued) secret now = Inl InvalidSignature)
       \<and> (\<forall>pl pl' k. pl' \<noteq> pl \<longrightarrow>
            jwt_verify mac (Jwt pl' (mac k pl)) secret now = Inl InvalidSignature)
       \<and> (\<forall>pl sg. sg \<noteq> mac secret pl \<longrightarrow>
            jwt_verify mac (Jwt pl sg) secret now = Inl InvalidSignature)
       \<and> (\<forall>s. jwt_verify mac (Malformed s) secret now = Inl InvalidSignature)
       \<and> (\<forall>pl. exp pl \<le> now \<longrightarrow>
            jwt_verify mac (Jwt pl (mac secret pl)) secret now = Inl Expired)
       \<and> (\<forall>pl. now < exp pl \<longrightarrow>
            jwt_verify mac (Jwt pl (mac secret pl)) secret now = Inr pl)
       \<and> (\<forall>raw pl. jwt_verify mac raw secret now = Inr pl \<longrightarrow>
            raw = Jwt pl (mac secret pl) \<and> now < exp pl)"
proof (intro conjI allI impI)
  fix usr k ttl issued
  assume "k \<noteq> secret"
  with inj show "jwt_verify mac (jwt_sign mac usr k ttl issued) secret now = Inl InvalidSignature"
    by (auto simp: jwt_sign_def Let_def)
next
  fix pl pl' :: jwt_payload and k
  assume "pl' \<noteq> pl"
  with inj show "jwt_verify mac (Jwt pl' (mac k pl)) secret now = Inl InvalidSignature"
    by auto
next
  fix raw pl
  assume ok: "jwt_verify mac raw secret now = Inr pl"
  show "raw = Jwt pl (mac secret pl)"
    using ok by (cases raw) (auto split: if_splits)
  show "now < exp pl"
    using ok by (cases raw) (auto split: if_splits)
qed simp_all


text \<open>A guessed secret, a swapped payload, an expired and a good credential.\<close>

theorem jwt_verify_outcomes_witness:
  "jwt_verify example_mac (jwt_sign example_mac (Some alice) ''guess'' 36000 0) ''s3cret'' 10
     = Inl InvalidSignature
   \<and> jwt_verify example_mac
       (Jwt \<lparr> user = None, exp = 99999 \<rparr> (example_mac ''s3cret'' \<lparr> user = Some alice, exp = 36000 \<rparr>))
       ''s3cret'' 10
     = Inl InvalidSignature
   \<and> jwt_verify example_mac
       (Jwt \<lparr> user = Some alice, exp = 36000 \<rparr> (example_mac ''s3cret'' \<lparr> user = Some alice, exp = 36000 \<rparr>))
       ''s3cret'' 36000
     = Inl Expired
   \<and> jwt_verify example_mac
       (Jwt \<lparr> user = Some alice, exp = 36000 \<rparr> (example_mac ''s3cret'' \<lparr> user = Some alice, exp = 36000 \<rparr>))
       ''s3cret'' 10
     = Inr \<lparr> user = Some alice, exp = 36000 \<rparr>"
proof -
  have inj: "\<forall>k k' m m'. example_mac k m = example_mac k' m' \<longrightarrow> k = k' \<and> m = m'"
    by (simp add: example_mac_def)
  have diff: "''guess'' \<noteq> ''s3cret''" by simp
  have alt: "\<lparr> user = None, exp = 99999 \<rparr> \<noteq> \<lparr> user = Some alice, exp = 36000 \<rparr>" by simp
  have late: "exp \<lparr> user = Some alice, exp = 36000 \<rparr> \<le> 36000" by simp
  have early: "10 < exp \<lparr> user = Some alice, exp = 36000 \<rparr>" by simp
  note at_10 = jwt_verify_outcomes [OF inj, of "''s3cret''" 10]
  note at_36000 = jwt_verify_outcomes [OF inj, of "''s3cret''" 36000]
  note c1 = at_10 [THEN conjunct1, rule_format, OF diff]
  note c2 = at_10 [THEN conjunct2, THEN conjunct1, rule_format, OF alt]
  note c3 = at_36000 [THEN conjunct2, THEN conjunct2, THEN conjunct2, THEN conjunct2,
                      THEN conjunct1, rule_format, OF late]
  note c4 = at_10 [THEN conjunct2, THEN conjunct2, THEN conjunct2, THEN conjunct2,
                   THEN conjunct2, THEN conjunct1, rule_format, OF early]
  show ?thesis
    by (rule conjI [OF c1 conjI [OF c2 conjI [OF c3 c4]]])
qed

section \<open>The auth middleware: admission\<close>

text \<open>
  C3. The middleware sends a response itself exactly when the request has no session
  cookie or has one whose verification fails (the empty cookie is both falsy and no
  token); that response is always 401 with the message Unauthorized, and the route then
  returns it without running the handler or touching the network. When verification
  succeeds, the middleware writes the embedded user to the request and calls the wrapped
  handler, whose result is the route's result.
\<close>

theorem auth_unauthorized_iff:
  "((\<exists>r. auth mac cfg now req res = Responded r) \<longleftrightarrow>
      (cookies req ''token'' = None
       \<or> (\<exists>tok e. cookies req ''token'' = Some tok
             \<and> jwt_verify mac tok (tokenSecret cfg) now = Inl e)))
   \<and> (\<forall>r. auth mac cfg now req res = Responded r \<longrightarrow>
          r = res\<lparr> statusCode := 401, body := Some (MessageBody ''Unauthorized'') \<rparr>
          \<and> get_user_posts mac axios_get cfg now req res net = (r, net))
   \<and> (\<forall>tok d. cookies req ''token'' = Some tok
          \<and> jwt_verify mac tok (tokenSecret cfg) now = Inr d \<longrightarrow>
          auth mac cfg now req res = Next (req\<lparr> req_user := user d \<rparr>) res
          \<and> get_user_posts mac axios_get cfg now req res net
              = user_posts axios_get cfg (req\<lparr> req_user := user d \<rparr>) res net)"
  by (auto simp: auth_cases get_user_posts_def split: option.splits sum.splits)

text \<open>A request without a cookie is refused; one with the example credential is admitted.\<close>

theorem auth_unauthorized_iff_witness:
  "auth example_mac (config example_env) 2000 (request_with None)
      (fresh_response :: (string \<times> jwt_payload, nat) response)
     = Responded \<lparr> statusCode = 401, setCookies = [], body = Some (MessageBody ''Unauthorized'') \<rparr>
   \<and> auth example_mac (config example_env) 2000 (request_with (Some alice_token))
      (fresh_response :: (string \<times> jwt_payload, nat) response)
     = Next ((request_with (Some alice_token))\<lparr> req_user := Some alice \<rparr>) fresh_response"
proof -
  let ?cfg = "config example_env"
  let ?res = "fresh_response :: (string \<times> jwt_payload, nat) response"
  note absent =
    auth_unauthorized_iff [of example_mac ?cfg 2000 "request_with None" ?res flaky_get 0]
  note present =
    auth_unauthorized_iff
      [of example_mac ?cfg 2000 "request_with (Some alice_token)" ?res flaky_get 0]
  have no_cookie: "cookies (request_with None :: (string \<times> jwt_payload) request) ''token'' = None"
    by (rule cookies_request_with)
  from absent [THEN conjunct1] no_cookie
  obtain r where r: "auth example_mac ?cfg 2000 (request_with None) ?res = Responded r"
    by blast
  from absent [THEN conjunct2, THEN conjunct1, rule_format, OF r]
  have "r = ?res\<lparr> statusCode := 401, body := Some (MessageBody ''Unauthorized'') \<rparr>"
    by (rule conjunct1)
  with r have first: "auth example_mac ?cfg 2000 (request_with None) ?res
     = Responded \<lparr> statusCode = 401, setCookies = [], body = Some (MessageBody ''Unauthorized'') \<rparr>"
    by (simp add: fresh_response_def)
  have verified: "cookies (request_with (Some alice_token)) ''token'' = Some alice_token
      \<and> jwt_verify example_mac alice_token (tokenSecret ?cfg) 2000
          = Inr \<lparr> user = Some alice, exp = 37000 \<rparr>"
    by (simp add: cookies_request_with example_secret alice_token_eq example_mac_def)
  from present [THEN conjunct2, THEN conjunct2, rule_format, OF verified]
  have second: "auth example_mac ?cfg 2000 (request_with (Some alice_token)) ?res
     = Next ((request_with (Some alice_token))\<lparr> req_user := Some alice \<rparr>) ?res"
    by simp
  from first second show ?thesis by (rule conjI)
qed


text \<open>
  C7. The middleware adds no \<^verbatim>\<open>Set-Cookie\<close> operation to a response it sends (it neither
  sets nor clears the cookie); on admission it hands on the response object as it got it and
  a request with the same cookies; and two calls with the same request give the same
  outcome as long as both happen before the expiration of the credential in the cookie
  (at any two times when the cookie holds no credential).
\<close>

theorem auth_read_only:
  "(\<forall>r. auth mac cfg now req res = Responded r \<longrightarrow> setCookies r = setCookies res)
   \<and> (\<forall>req' res'. auth mac cfg now req res = Next req' res' \<longrightarrow>
          res' = res \<and> cookies req' = cookies req)
   \<and> (\<forall>now'. (\<forall>pl sg. cookies req ''token'' = Some (Jwt pl sg) \<longrightarrow>
                    now < exp pl \<and> now' < exp pl) \<longrightarrow>
          auth mac cfg now' req res = auth mac cfg now req res)"
proof (intro conjI allI impI)
  fix r
  assume "auth mac cfg now req res = Responded r"
  then show "setCookies r = setCookies res"
    by (auto simp: auth_cases split: option.splits sum.splits)
next
  fix req' res'
  assume admitted: "auth mac cfg now req res = Next req' res'"
  then show "res' = res"
    by (auto simp: auth_cases split: option.splits sum.splits)
  from admitted show "cookies req' = cookies req"
    by (auto simp: auth_cases split: option.splits sum.splits)
next
  fix now'
  assume before: "\<forall>pl sg. cookies req ''token'' = Some (Jwt pl sg) \<longrightarrow>
                    now < exp pl \<and> now' < exp pl"
  show "auth mac cfg now' req res = auth mac cfg now req res"
  proof (cases "cookies req ''token''")
    case None
    then show ?thesis by (simp add: auth_cases)
  next
    case (Some tok)
    show ?thesis
    proof (cases tok)
      case (Malformed s)
      with Some show ?thesis by (simp add: auth_cases)
    next
      case (Jwt pl sg)
      with Some before have "now < exp pl" "now' < exp pl" by simp_all
      with Some Jwt show ?thesis by (simp add: auth_cases)
    qed
  qed
qed

text \<open>The example credential at second 2000 and one second before it expires.\<close>

theorem auth_read_only_witness:
  "auth example_mac (config example_env) 36999 (request_with (Some alice_token))
      (fresh_response :: (string \<times> jwt_payload, nat) response)
     = auth example_mac (config example_env) 2000 (request_with (Some alice_token)) fresh_response
   \<and> auth example_mac (config example_env) 2000 (request_with (Some alice_token))
      (fresh_response :: (string \<times> jwt_payload, nat) response)
     = Next ((request_with (Some alice_token))\<lparr> req_user := Some alice \<rparr>) fresh_response
   \<and> cookies ((request_with (Some alice_token) :: (string \<times> jwt_payload) request)
                \<lparr> req_user := Some alice \<rparr>)
     = cookies (request_with (Some alice_token))"
proof -
  let ?res = "fresh_response :: (string \<times> jwt_payload, nat) response"
  let ?req = "request_with (Some alice_token)"
  note fact = auth_read_only [where mac = example_mac and cfg = "config example_env"
                and now = 2000 and req = ?req and res = ?res]
  have before: "2000 < exp pl \<and> 36999 < exp pl"
    if "cookies ?req ''token'' = Some (Jwt pl sg)" for pl sg
    using that by (auto simp: cookies_request_with alice_token_eq)
  have admitted: "auth example_mac (config example_env) 2000 ?req ?res
                    = Next (?req\<lparr> req_user := Some alice \<rparr>) ?res"
    by (rule alice_admitted)
  from fact [THEN conjunct2, THEN conjunct1, rule_format, OF admitted]
  have same_cookies: "cookies (?req\<lparr> req_user := Some alice \<rparr>) = cookies ?req"
    by (rule conjunct2)
  from fact [THEN conjunct2, THEN conjunct2, rule_format, of 36999, OF before]
       admitted same_cookies
  show ?thesis by (intro conjI)
qed

text \<open>
  C9. A credential with the right signature under the configured secret, not yet expired,
  is admitted with whatever its payload has as \<^verbatim>\<open>user\<close>; when the payload has none, the
  handler is called with \<^verbatim>\<open>req.user\<close> undefined.
\<close>

theorem auth_admits_without_user:
  assumes signed: "cookies req ''token'' = Some (Jwt pl (mac (tokenSecret cfg) pl))"
    and unexpired: "now < exp pl"
  shows "auth mac cfg now req res = Next (req\<lparr> req_user := user pl \<rparr>) res
       \<and> (user pl = None \<longrightarrow>
            auth mac cfg now req res = Next (req\<lparr> req_user := None \<rparr>) res
          \<and> get_user_posts mac axios_get cfg now req res net
              = user_posts axios_get cfg (req\<lparr> req_user := None \<rparr>) res net)"
  using signed unexpired by (simp add: auth_cases get_user_posts_def)


text \<open>The credential without a user reaches the handler, which serves the posts.\<close>

theorem auth_admits_without_user_witness:
  "auth example_mac (config example_env) 2000 (request_with (Some anonymous_token))
      (fresh_response :: (string \<times> jwt_payload, nat) response)
     = Next ((request_with (Some anonymous_token))\<lparr> req_user := None \<rparr>) fresh_response
   \<and> get_user_posts example_mac flaky_get (config example_env) 2000
        (request_with (Some anonymous_token)) fresh_response 1
     = (\<lparr> statusCode = 200, setCookies = [], body = Some (PostsBody [10, 11, 12, 13, 14]) \<rparr>, 2)"
proof -
  let ?cfg = "config example_env"
  let ?req = "request_with (Some anonymous_token)"
  let ?res = "fresh_response :: (string \<times> jwt_payload, nat) response"
  let ?pl = "\<lparr> user = None, exp = 37000 \<rparr>"
  have signed: "cookies ?req ''token'' = Some (Jwt ?pl (example_mac (tokenSecret ?cfg) ?pl))"
    by (simp add: cookies_request_with anonymous_token_def example_secret)
  have unexpired: "2000 < exp ?pl" by simp
  have no_user: "user ?pl = None" by simp
  note fact = auth_admits_without_user
                 [where req = ?req and pl = ?pl and mac = example_mac and cfg = ?cfg and now = 2000
                    and res = ?res and axios_get = flaky_get and net = 1,
                  OF signed unexpired]
  from fact [THEN conjunct2, rule_format, OF no_user]
  show ?thesis
    by (simp add: user_posts_def flaky_get_def json_def fresh_response_def)
qed

section \<open>GET /auth/logged_in: no error, no cookie change on failure\<close>

text \<open>
  C4. On a fresh response the handler always answers with status 200, hence never with 401
  or 500: with \<^verbatim>\<open>{loggedIn: false}\<close> when the cookie is absent or its verification fails
  with whatever error, and with \<^verbatim>\<open>{loggedIn: true, user}\<close> when it verifies.
\<close>

theorem logged_in_always_200:
  "statusCode (logged_in mac cfg now req (fresh_response :: ('sig, 'p) response)) = 200
   \<and> (cookies req ''token'' = None
        \<or> (\<exists>tok e. cookies req ''token'' = Some tok
              \<and> jwt_verify mac tok (tokenSecret cfg) now = Inl e) \<longrightarrow>
        body (logged_in mac cfg now req (fresh_response :: ('sig, 'p) response))
          = Some (LoggedInBody False None))
   \<and> (\<forall>tok d. cookies req ''token'' = Some tok
          \<and> jwt_verify mac tok (tokenSecret cfg) now = Inr d \<longrightarrow>
        body (logged_in mac cfg now req (fresh_response :: ('sig, 'p) response))
          = Some (LoggedInBody True (user d)))"
  by (auto simp: logged_in_cases fresh_response_def split: option.splits sum.splits)

text \<open>The example credential after its expiration, and before.\<close>

theorem logged_in_always_200_witness:
  "statusCode (logged_in example_mac (config example_env) 40000 (request_with (Some alice_token))
      (fresh_response :: (string \<times> jwt_payload, nat) response)) = 200
   \<and> body (logged_in example_mac (config example_env) 40000 (request_with (Some alice_token))
      (fresh_response :: (string \<times> jwt_payload, nat) response)) = Some (LoggedInBody False None)
   \<and> body (logged_in example_mac (config example_env) 2000 (request_with (Some alice_token))
      (fresh_response :: (string \<times> jwt_payload, nat) response))
       = Some (LoggedInBody True (Some alice))"
proof -
  let ?res = "fresh_response :: (string \<times> jwt_payload, nat) response"
  let ?req = "request_with (Some alice_token)"
  note late = logged_in_always_200 [of example_mac "config example_env" 40000 ?req, where ?'p = nat]
  note early = logged_in_always_200 [of example_mac "config example_env" 2000 ?req, where ?'p = nat]
  have failing: "cookies ?req ''token'' = None
        \<or> (\<exists>tok e. cookies ?req ''token'' = Some tok
              \<and> jwt_verify example_mac tok (tokenSecret (config example_env)) 40000 = Inl e)"
    using expired_example by (simp add: cookies_request_with)
  have verified: "cookies ?req ''token'' = Some alice_token
      \<and> jwt_verify example_mac alice_token (tokenSecret (config example_env)) 2000
          = Inr \<lparr> user = Some alice, exp = 37000 \<rparr>"
    by (simp add: cookies_request_with example_secret alice_token_eq example_mac_def)
  from early [THEN conjunct2, THEN conjunct2, rule_format, OF verified]
  have third: "body (logged_in example_mac (config example_env) 2000 ?req ?res)
       = Some (LoggedInBody True (Some alice))"
    by simp
  from late [THEN conjunct1] late [THEN conjunct2, THEN conjunct1, rule_format, OF failing] third
  show ?thesis by (intro conjI)
qed

text \<open>
  C10. When the cookie is absent or fails verification, the handler only sets the body
  \<^verbatim>\<open>{loggedIn: false}\<close>: the response has the \<^verbatim>\<open>Set-Cookie\<close> operations and the status it
  had, so the cookie is neither overwritten nor cleared; and whenever the handler reports
  \<^verbatim>\<open>loggedIn: false\<close>, it has added no cookie operation.
\<close>

theorem logged_in_failure_keeps_cookie:
  "(cookies req ''token'' = None
      \<or> (\<exists>tok e. cookies req ''token'' = Some tok
            \<and> jwt_verify mac tok (tokenSecret cfg) now = Inl e) \<longrightarrow>
      logged_in mac cfg now req res = res\<lparr> body := Some (LoggedInBody False None) \<rparr>)
   \<and> (\<forall>u. body (logged_in mac cfg now req res) = Some (LoggedInBody False u) \<longrightarrow>
          setCookies (logged_in mac cfg now req res) = setCookies res
          \<and> statusCode (logged_in mac cfg now req res) = statusCode res)"
  by (auto simp: logged_in_cases split: option.splits sum.splits)

text \<open>An expired cookie and no cookie, on a fresh response.\<close>

theorem logged_in_failure_keeps_cookie_witness:
  "logged_in example_mac (config example_env) 40000 (request_with (Some alice_token))
      (fresh_response :: (string \<times> jwt_payload, nat) response)
     = \<lparr> statusCode = 200, setCookies = [], body = Some (LoggedInBody False None) \<rparr>
   \<and> logged_in example_mac (config example_env) 40000 (request_with None)
      (fresh_response :: (string \<times> jwt_payload, nat) response)
     = \<lparr> statusCode = 200, setCookies = [], body = Some (LoggedInBody False None) \<rparr>"
proof -
  let ?res = "fresh_response :: (string \<times> jwt_payload, nat) response"
  let ?cfg = "config example_env"
  have expired: "cookies (request_with (Some alice_token)) ''token'' = None
        \<or> (\<exists>tok e. cookies (request_with (Some alice_token)) ''token'' = Some tok
              \<and> jwt_verify example_mac tok (tokenSecret ?cfg) 40000 = Inl e)"
    using expired_example by (simp add: cookies_request_with)
  have absent: "cookies (request_with None :: (string \<times> jwt_payload) request) ''token'' = None
        \<or> (\<exists>tok e. cookies (request_with None) ''token'' = Some tok
              \<and> jwt_verify example_mac tok (tokenSecret ?cfg) 40000 = Inl e)"
    by (simp add: cookies_request_with)
  from logged_in_failure_keeps_cookie
         [of "request_with (Some alice_token)" example_mac ?cfg 40000 ?res,
          THEN conjunct1, rule_format, OF expired]
       logged_in_failure_keeps_cookie
         [of "request_with None" example_mac ?cfg 40000 ?res,
          THEN conjunct1, rule_format, OF absent]
  show ?thesis by (simp add: fresh_response_def)
qed

section \<open>GET /auth/logged_in: sliding expiration\<close>

text \<open>
  C5, as amended. When the cookie verifies, the handler appends one \<^verbatim>\<open>Set-Cookie\<close> for
  \<^verbatim>\<open>token\<close> whose value is a credential for the same user that expires 36000 seconds after
  the poll, with \<^verbatim>\<open>maxAge\<close> 36000000, and answers \<^verbatim>\<open>{loggedIn: true, user}\<close>. When the
  replaced credential was issued by this service, the new expiration is strictly later
  exactly when the poll's clock is past the second of that issuance, and it is never
  earlier when the issuance was not after the poll.
\<close>

theorem logged_in_refresh:
  assumes cookie_present: "cookies req ''token'' = Some tok"
    and verified: "jwt_verify mac tok (tokenSecret (config env)) now = Inr d"
  shows "logged_in mac (config env) now req res =
           res\<lparr> setCookies := setCookies res @
                  [SetCookie ''token''
                     (Jwt \<lparr> user = user d, exp = now + 36000 \<rparr>
                        (mac (TOKEN_SECRET env) \<lparr> user = user d, exp = now + 36000 \<rparr>))
                     \<lparr> maxAge = 36000000, httpOnly = True, sameSite = ''None'', secure = True \<rparr>],
                body := Some (LoggedInBody True (user d)) \<rparr>
         \<and> (\<forall>usr issued. tok = jwt_sign mac usr (tokenSecret (config env))
                               (tokenExpiration (config env)) issued \<longrightarrow>
               (exp d < now + 36000 \<longleftrightarrow> issued < now)
               \<and> (issued \<le> now \<longrightarrow> exp d \<le> now + 36000))"
proof (intro conjI allI impI)
  show "logged_in mac (config env) now req res =
           res\<lparr> setCookies := setCookies res @
                  [SetCookie ''token''
                     (Jwt \<lparr> user = user d, exp = now + 36000 \<rparr>
                        (mac (TOKEN_SECRET env) \<lparr> user = user d, exp = now + 36000 \<rparr>))
                     \<lparr> maxAge = 36000000, httpOnly = True, sameSite = ''None'', secure = True \<rparr>],
                body := Some (LoggedInBody True (user d)) \<rparr>"
    using cookie_present verified
    by (simp add: logged_in_cases config_simps jwt_sign_def Let_def session_cookie_options_def)
next
  fix usr issued
  assume "tok = jwt_sign mac usr (tokenSecret (config env)) (tokenExpiration (config env)) issued"
  with verified have old: "exp d = issued + 36000"
    by (auto simp: jwt_sign_def Let_def config_simps split: if_splits)
  show "exp d < now + 36000 \<longleftrightarrow> issued < now"
    using old by simp
  show "exp d \<le> now + 36000" if "issued \<le> now"
    using old that by simp
qed

text \<open>The example credential, issued at second 1000, polled at second 1001.\<close>

theorem logged_in_refresh_witness:
  "logged_in example_mac (config example_env) 1001 (request_with (Some alice_token))
      (fresh_response :: (string \<times> jwt_payload, nat) response)
     = \<lparr> statusCode = 200,
         setCookies =
           [SetCookie ''token''
              (Jwt \<lparr> user = Some alice, exp = 37001 \<rparr>
                 (''s3cret'', \<lparr> user = Some alice, exp = 37001 \<rparr>))
              \<lparr> maxAge = 36000000, httpOnly = True, sameSite = ''None'', secure = True \<rparr>],
         body = Some (LoggedInBody True (Some alice)) \<rparr>
   \<and> exp \<lparr> user = Some alice, exp = 37000 \<rparr> < 1001 + 36000"
proof -
  let ?res = "fresh_response :: (string \<times> jwt_payload, nat) response"
  have cookie_present: "cookies (request_with (Some alice_token)) ''token'' = Some alice_token"
    by (rule cookies_request_with)
  have verified: "jwt_verify example_mac alice_token (tokenSecret (config example_env)) 1001
                    = Inr \<lparr> user = Some alice, exp = 37000 \<rparr>"
    by (simp add: example_secret alice_token_eq example_mac_def)
  have issued: "alice_token = jwt_sign example_mac (Some alice) (tokenSecret (config example_env))
                   (tokenExpiration (config example_env)) 1000"
    by (simp add: alice_token_def example_secret config_simps)
  note fact = logged_in_refresh [OF cookie_present verified, of ?res]
  from fact [THEN conjunct2, rule_format, OF issued]
  have later: "exp \<lparr> user = Some alice, exp = 37000 \<rparr> < 1001 + 36000"
    by simp
  from fact [THEN conjunct1]
  have response: "logged_in example_mac (config example_env) 1001 (request_with (Some alice_token)) ?res
     = \<lparr> statusCode = 200,
         setCookies =
           [SetCookie ''token''
              (Jwt \<lparr> user = Some alice, exp = 37001 \<rparr>
                 (''s3cret'', \<lparr> user = Some alice, exp = 37001 \<rparr>))
              \<lparr> maxAge = 36000000, httpOnly = True, sameSite = ''None'', secure = True \<rparr>],
         body = Some (LoggedInBody True (Some alice)) \<rparr>"
    by (simp add: fresh_response_def example_mac_def example_env_def)
  from response later show ?thesis by (rule conjI)
qed

text \<open>
  C5 as stated fails: polled in the very second of its issuance, the example credential
  is replaced by a credential with the same expiration (the same credential, in fact).
\<close>

theorem logged_in_same_second_counterexample:
  "alice_token = Jwt \<lparr> user = Some alice, exp = 37000 \<rparr>
                   (''s3cret'', \<lparr> user = Some alice, exp = 37000 \<rparr>)
   \<and> jwt_verify example_mac alice_token (tokenSecret (config example_env)) 1000
       = Inr \<lparr> user = Some alice, exp = 37000 \<rparr>
   \<and> logged_in example_mac (config example_env) 1000 (request_with (Some alice_token))
        (fresh_response :: (string \<times> jwt_payload, nat) response)
       = \<lparr> statusCode = 200,
           setCookies =
             [SetCookie ''token''
                (Jwt \<lparr> user = Some alice, exp = 37000 \<rparr>
                   (''s3cret'', \<lparr> user = Some alice, exp = 37000 \<rparr>))
                \<lparr> maxAge = 36000000, httpOnly = True, sameSite = ''None'', secure = True \<rparr>],
           body = Some (LoggedInBody True (Some alice)) \<rparr>
   \<and> \<not> ((37000::nat) < 37000)"
  by (simp add: alice_token_eq logged_in_cases cookies_request_with example_secret example_mac_def
        config_simps jwt_sign_def Let_def session_cookie_options_def fresh_response_def)


section \<open>GET /auth/token: the four outcomes\<close>

text \<open>
  C6, as amended. Without a code (absent or empty) the handler answers 400, leaves the
  cookies alone and makes no outbound call. With a code: when the exchange succeeds with a
  body other than \<^verbatim>\<open>null\<close> that has no \<^verbatim>\<open>id_token\<close> (absent or empty) it answers 400 and
  leaves the cookies alone; when the exchange fails it answers 500 and leaves the cookies
  alone. If the handler sets a cookie or answers \<^verbatim>\<open>{user}\<close>, then the code was given, the
  exchange succeeded with an object whose \<^verbatim>\<open>id_token\<close> is not empty and decodes, the cookie
  is the credential signed for the decoded profile, and the answer is that profile.
\<close>

theorem auth_token_outcomes:
  "(falsy (query req ''code'') \<longrightarrow>
      auth_token mac jwt_decode axios_post cfg now req res net
        = (res\<lparr> statusCode := 400,
                 body := Some (MessageBody ''Authorization code must be provided'') \<rparr>, net))
   \<and> (\<forall>c data net' id_tok. query req ''code'' = Some c \<and> c \<noteq> []
          \<and> axios_post (tokenUrl cfg) (getTokenParams cfg c) net = (HttpOk data, net')
          \<and> data_id_token data = Inr id_tok \<and> falsy id_tok \<longrightarrow>
        auth_token mac jwt_decode axios_post cfg now req res net
          = (res\<lparr> statusCode := 400, body := Some (MessageBody ''Authorization error'') \<rparr>, net'))
   \<and> (\<forall>c net'. query req ''code'' = Some c \<and> c \<noteq> []
          \<and> axios_post (tokenUrl cfg) (getTokenParams cfg c) net = (HttpError, net') \<longrightarrow>
        auth_token mac jwt_decode axios_post cfg now req res net
          = (res\<lparr> statusCode := 500, body := Some (MessageBody ''Server error'') \<rparr>, net'))
   \<and> (setCookies (fst (auth_token mac jwt_decode axios_post cfg now req res net)) \<noteq> setCookies res
        \<or> (\<exists>u. body (fst (auth_token mac jwt_decode axios_post cfg now req res net))
                  = Some (UserBody u)) \<longrightarrow>
        (\<exists>c obj net' idt claims.
            query req ''code'' = Some c \<and> c \<noteq> []
          \<and> axios_post (tokenUrl cfg) (getTokenParams cfg c) net = (HttpOk (DataObject obj), net')
          \<and> id_token obj = Some idt \<and> idt \<noteq> []
          \<and> jwt_decode idt = Some claims
          \<and> auth_token mac jwt_decode axios_post cfg now req res net
              = (res\<lparr> setCookies := setCookies res @
                         [SetCookie ''token''
                            (jwt_sign mac
                               (Some \<lparr> name = claim_name claims, email = claim_email claims,
                                       picture = claim_picture claims \<rparr>)
                               (tokenSecret cfg) (tokenExpiration cfg) now)
                            (session_cookie_options cfg)],
                       body := Some (UserBody \<lparr> name = claim_name claims,
                                               email = claim_email claims,
                                               picture = claim_picture claims \<rparr>) \<rparr>,
                 net')))"
proof (intro conjI allI impI)
  assume "falsy (query req ''code'')"
  then show "auth_token mac jwt_decode axios_post cfg now req res net
        = (res\<lparr> statusCode := 400,
                 body := Some (MessageBody ''Authorization code must be provided'') \<rparr>, net)"
    by (simp add: auth_token_def status_def json_def)
next
  fix c data net' id_tok
  assume "query req ''code'' = Some c \<and> c \<noteq> []
          \<and> axios_post (tokenUrl cfg) (getTokenParams cfg c) net = (HttpOk data, net')
          \<and> data_id_token data = Inr id_tok \<and> falsy id_tok"
  then show "auth_token mac jwt_decode axios_post cfg now req res net
          = (res\<lparr> statusCode := 400, body := Some (MessageBody ''Authorization error'') \<rparr>, net')"
    by (simp add: auth_token_def status_def json_def)
next
  fix c net'
  assume "query req ''code'' = Some c \<and> c \<noteq> []
          \<and> axios_post (tokenUrl cfg) (getTokenParams cfg c) net = (HttpError, net')"
  then show "auth_token mac jwt_decode axios_post cfg now req res net
          = (res\<lparr> statusCode := 500, body := Some (MessageBody ''Server error'') \<rparr>, net')"
    by (simp add: auth_token_def status_def json_def)
next
  let ?out = "auth_token mac jwt_decode axios_post cfg now req res net"
  assume set: "setCookies (fst ?out) \<noteq> setCookies res
        \<or> (\<exists>u. body (fst ?out) = Some (UserBody u))"
  show "\<exists>c obj net' idt claims.
            query req ''code'' = Some c \<and> c \<noteq> []
          \<and> axios_post (tokenUrl cfg) (getTokenParams cfg c) net = (HttpOk (DataObject obj), net')
          \<and> id_token obj = Some idt \<and> idt \<noteq> []
          \<and> jwt_decode idt = Some claims
          \<and> ?out
              = (res\<lparr> setCookies := setCookies res @
                         [SetCookie ''token''
                            (jwt_sign mac
                               (Some \<lparr> name = claim_name claims, email = claim_email claims,
                                       picture = claim_picture claims \<rparr>)
                               (tokenSecret cfg) (tokenExpiration cfg) now)
                            (session_cookie_options cfg)],
                       body := Some (UserBody \<lparr> name = claim_name claims,
                                               email = claim_email claims,
                                               picture = claim_picture claims \<rparr>) \<rparr>,
                 net')"
  proof (cases "query req ''code''")
    case None
    with set show ?thesis by (simp add: auth_token_def status_def json_def)
  next
    case (Some c)
    show ?thesis
    proof (cases "c = []")
      case True
      with Some set show ?thesis by (simp add: auth_token_def status_def json_def)
    next
      case code: False
      obtain r net' where post: "axios_post (tokenUrl cfg) (getTokenParams cfg c) net = (r, net')"
        by (cases "axios_post (tokenUrl cfg) (getTokenParams cfg c) net")
      show ?thesis
      proof (cases r)
        case HttpError
        with Some code post set show ?thesis
          by (simp add: auth_token_def status_def json_def)
      next
        case (HttpOk data)
        show ?thesis
        proof (cases data)
          case DataNull
          with Some code post HttpOk set show ?thesis
            by (simp add: auth_token_def status_def json_def)
        next
          case (DataPrimitive s)
          with Some code post HttpOk set show ?thesis
            by (simp add: auth_token_def status_def json_def)
        next
          case (DataObject obj)
          show ?thesis
          proof (cases "id_token obj")
            case None
            with Some code post HttpOk DataObject set show ?thesis
              by (simp add: auth_token_def status_def json_def)
          next
            case idt: (Some idt)
            show ?thesis
            proof (cases "idt = []")
              case True
              with Some code post HttpOk DataObject idt set show ?thesis
                by (simp add: auth_token_def status_def json_def)
            next
              case nonempty: False
              show ?thesis
              proof (cases "jwt_decode idt")
                case None
                with Some code post HttpOk DataObject idt nonempty set show ?thesis
                  by (simp add: auth_token_def status_def json_def)
              next
                case claims: (Some claims)
                with Some code post HttpOk DataObject idt nonempty show ?thesis
                  by (simp add: auth_token_def status_def json_def cookie_def Let_def)
              qed
            qed
          qed
        qed
      qed
    qed
  qed
qed

text \<open>
  No code, an object without identity token, a body that is no JSON, a rejected code, and
  a good code.
\<close>

theorem auth_token_outcomes_witness:
  "auth_token example_mac example_decode example_post (config example_env) 1000
      (request_with_code None) (fresh_response :: (string \<times> jwt_payload, nat) response) 0
     = (\<lparr> statusCode = 400, setCookies = [],
          body = Some (MessageBody ''Authorization code must be provided'') \<rparr>, 0)
   \<and> auth_token example_mac example_decode example_post (config example_env) 1000
      (request_with_code (Some ''bare'')) (fresh_response :: (string \<times> jwt_payload, nat) response) 0
     = (\<lparr> statusCode = 400, setCookies = [],
          body = Some (MessageBody ''Authorization error'') \<rparr>, 1)
   \<and> auth_token example_mac example_decode example_post (config example_env) 1000
      (request_with_code (Some ''text'')) (fresh_response :: (string \<times> jwt_payload, nat) response) 0
     = (\<lparr> statusCode = 400, setCookies = [],
          body = Some (MessageBody ''Authorization error'') \<rparr>, 1)
   \<and> auth_token example_mac example_decode example_post (config example_env) 1000
      (request_with_code (Some ''used'')) (fresh_response :: (string \<times> jwt_payload, nat) response) 0
     = (\<lparr> statusCode = 500, setCookies = [], body = Some (MessageBody ''Server error'') \<rparr>, 1)
   \<and> auth_token example_mac example_decode example_post (config example_env) 1000
      (request_with_code (Some ''good'')) (fresh_response :: (string \<times> jwt_payload, nat) response) 0
     = (\<lparr> statusCode = 200,
          setCookies = [SetCookie ''token'' alice_token
             \<lparr> maxAge = 36000000, httpOnly = True, sameSite = ''None'', secure = True \<rparr>],
          body = Some (UserBody alice) \<rparr>, 1)"
proof -
  let ?res = "fresh_response :: (string \<times> jwt_payload, nat) response"
  let ?cfg = "config example_env"
  have no_code: "falsy (query (request_with_code None :: (string \<times> jwt_payload) request) ''code'')"
    by (simp add: query_request_with_code)
  have bare: "query (request_with_code (Some ''bare'') :: (string \<times> jwt_payload) request) ''code''
                = Some ''bare'' \<and> ''bare'' \<noteq> []
      \<and> example_post (tokenUrl ?cfg) (getTokenParams ?cfg ''bare'') 0
          = (HttpOk (DataObject \<lparr> id_token = None \<rparr>), 1)
      \<and> data_id_token (DataObject \<lparr> id_token = None \<rparr>) = Inr None \<and> falsy None"
    by (simp add: query_request_with_code example_post_simps)
  have plain: "query (request_with_code (Some ''text'') :: (string \<times> jwt_payload) request) ''code''
                = Some ''text'' \<and> ''text'' \<noteq> []
      \<and> example_post (tokenUrl ?cfg) (getTokenParams ?cfg ''text'') 0
          = (HttpOk (DataPrimitive ''OK''), 1)
      \<and> data_id_token (DataPrimitive ''OK'') = Inr None \<and> falsy None"
    by (simp add: query_request_with_code example_post_simps)
  have used: "query (request_with_code (Some ''used'') :: (string \<times> jwt_payload) request) ''code''
                = Some ''used'' \<and> ''used'' \<noteq> []
      \<and> example_post (tokenUrl ?cfg) (getTokenParams ?cfg ''used'') 0 = (HttpError, 1)"
    by (simp add: query_request_with_code example_post_simps)
  note at = auth_token_outcomes
         [where mac = example_mac and jwt_decode = example_decode and axios_post = example_post
            and cfg = ?cfg and now = 1000 and res = ?res and net = 0]
  from at [where req = "request_with_code None", THEN conjunct1, rule_format, OF no_code]
       at [where req = "request_with_code (Some ''bare'')",
           THEN conjunct2, THEN conjunct1, rule_format, OF bare]
       at [where req = "request_with_code (Some ''text'')",
           THEN conjunct2, THEN conjunct1, rule_format, OF plain]
       at [where req = "request_with_code (Some ''used'')",
           THEN conjunct2, THEN conjunct2, THEN conjunct1, rule_format, OF used]
  have failures:
    "auth_token example_mac example_decode example_post ?cfg 1000 (request_with_code None) ?res 0
       = (\<lparr> statusCode = 400, setCookies = [],
            body = Some (MessageBody ''Authorization code must be provided'') \<rparr>, 0)
     \<and> auth_token example_mac example_decode example_post ?cfg 1000
          (request_with_code (Some ''bare'')) ?res 0
       = (\<lparr> statusCode = 400, setCookies = [],
            body = Some (MessageBody ''Authorization error'') \<rparr>, 1)
     \<and> auth_token example_mac example_decode example_post ?cfg 1000
          (request_with_code (Some ''text'')) ?res 0
       = (\<lparr> statusCode = 400, setCookies = [],
            body = Some (MessageBody ''Authorization error'') \<rparr>, 1)
     \<and> auth_token example_mac example_decode example_post ?cfg 1000
          (request_with_code (Some ''used'')) ?res 0
       = (\<lparr> statusCode = 500, setCookies = [], body = Some (MessageBody ''Server error'') \<rparr>, 1)"
    by (simp add: fresh_response_def)
  have success:
    "auth_token example_mac example_decode example_post ?cfg 1000
          (request_with_code (Some ''good'')) ?res 0
       = (\<lparr> statusCode = 200,
            setCookies = [SetCookie ''token'' alice_token
               \<lparr> maxAge = 36000000, httpOnly = True, sameSite = ''None'', secure = True \<rparr>],
            body = Some (UserBody alice) \<rparr>, 1)"
    by (simp add: auth_token_def query_request_with_code example_post_simps example_decode_def
          alice_def alice_token_def example_secret config_simps session_cookie_options_def
          fresh_response_def json_def cookie_def Let_def)
  from failures success show ?thesis by simp
qed

text \<open>
  C6 as stated fails: the exchange succeeds with the body \<^verbatim>\<open>null\<close>, which contains no
  \<^verbatim>\<open>id_token\<close>, and the answer is 500, not 400. Reading the property throws, and the
  \<^verbatim>\<open>catch\<close> answers.
\<close>

theorem auth_token_null_body_counterexample:
  "query (request_with_code (Some ''void'') :: (string \<times> jwt_payload) request) ''code'' = Some ''void''
   \<and> example_post (tokenUrl (config example_env)) (getTokenParams (config example_env) ''void'') 0
       = (HttpOk DataNull, 1)
   \<and> auth_token example_mac example_decode example_post (config example_env) 1000
        (request_with_code (Some ''void'')) (fresh_response :: (string \<times> jwt_payload, nat) response) 0
       = (\<lparr> statusCode = 500, setCookies = [], body = Some (MessageBody ''Server error'') \<rparr>, 1)
   \<and> (500::nat) \<noteq> 400"
  by (simp add: auth_token_def query_request_with_code example_post_simps
        fresh_response_def json_def status_def)

section \<open>GET /user/posts: the first five posts\<close>

text \<open>
  C8. For an admitted request on a fresh response: when the resource API returns a list,
  the route answers 200 with \<open>take 5\<close> of it, that is its first \<open>min 5 (length xs)\<close>
  entries in order; when the call fails, the route answers 500, and the state of the outside
  world is the one right after that single call.
\<close>

theorem user_posts_first_five:
  "(\<forall>req' res' xs net'.
        auth mac cfg now req fresh_response = Next req' res'
      \<and> axios_get (postUrl cfg) net = (HttpOk xs, net') \<longrightarrow>
        get_user_posts mac axios_get cfg now req fresh_response net
          = (\<lparr> statusCode = 200, setCookies = [], body = Some (PostsBody (take 5 xs)) \<rparr>, net')
      \<and> length (take 5 xs) = min 5 (length xs)
      \<and> (\<forall>i < min 5 (length xs). take 5 xs ! i = xs ! i))
   \<and> (\<forall>req' res' net'.
        auth mac cfg now req fresh_response = Next req' res'
      \<and> axios_get (postUrl cfg) net = (HttpError, net') \<longrightarrow>
        get_user_posts mac axios_get cfg now req fresh_response net
          = (\<lparr> statusCode = 500, setCookies = [], body = Some (MessageBody ''Server error'') \<rparr>,
             net'))"
  by (auto simp: auth_cases get_user_posts_def user_posts_def json_def status_def
        fresh_response_def split: option.splits sum.splits)

text \<open>
  Seven posts upstream give the first five. Where the first call fails and a second one
  would succeed, the route answers 500 after one call.
\<close>

theorem user_posts_first_five_witness:
  "get_user_posts example_mac flaky_get (config example_env) 2000
      (request_with (Some alice_token)) fresh_response 1
     = (\<lparr> statusCode = 200, setCookies = [], body = Some (PostsBody [10, 11, 12, 13, 14]) \<rparr>, 2)
   \<and> get_user_posts example_mac flaky_get (config example_env) 2000
      (request_with (Some alice_token)) fresh_response 0
     = (\<lparr> statusCode = 500, setCookies = [], body = Some (MessageBody ''Server error'') \<rparr>, 1)"
proof -
  let ?cfg = "config example_env"
  let ?req = "request_with (Some alice_token)"
  let ?res = "fresh_response :: (string \<times> jwt_payload, nat) response"
  note fact = user_posts_first_five [where mac = example_mac and cfg = ?cfg and now = 2000
                and req = ?req and axios_get = flaky_get]
  have up: "auth example_mac ?cfg 2000 ?req ?res
              = Next (?req\<lparr> req_user := Some alice \<rparr>) ?res
      \<and> flaky_get (postUrl ?cfg) 1 = (HttpOk [10, 11, 12, 13, 14, 15, 16], 2)"
    using alice_admitted by (simp add: flaky_get_def)
  have down: "auth example_mac ?cfg 2000 ?req ?res
              = Next (?req\<lparr> req_user := Some alice \<rparr>) ?res
      \<and> flaky_get (postUrl ?cfg) 0 = (HttpError, 1)"
    using alice_admitted by (simp add: flaky_get_def)
  from fact [where net = 1, THEN conjunct1, rule_format, OF up, THEN conjunct1]
  have served: "get_user_posts example_mac flaky_get ?cfg 2000 ?req fresh_response 1
     = (\<lparr> statusCode = 200, setCookies = [], body = Some (PostsBody [10, 11, 12, 13, 14]) \<rparr>, 2)"
    by simp
  from served fact [where net = 0, THEN conjunct2, rule_format, OF down]
  show ?thesis by (rule conjI)
qed


end
